theory Spec2Isabelle
  imports Main "HOL-Library.AList"
begin

section \<open>Values exchanged with the platform\<close>

text \<open>
  JSON-like JavaScript values: event payloads, contexts, task records, outputs, request
  bodies. \<open>JUndefined\<close> is JavaScript's \<open>undefined\<close> (an absent property), \<open>JNull\<close>
  is \<open>null\<close>; the operator \<open>??\<close> of the source replaces exactly these two.
\<close>

datatype json =
    JUndefined
  | JNull
  | JBool bool
  | JNum int
  | JStr string
  | JArr "json list"
  | JObj "(string \<times> json) list"

definition nullish_or :: "json \<Rightarrow> json \<Rightarrow> json" where
  "nullish_or v d = (if v = JUndefined \<or> v = JNull then d else v)"

text \<open>
  A value of type \<open>string | undefined\<close> is a \<open>string option\<close>. It is truthy when it is
  a non-empty string; \<open>a ?? b\<close> takes \<open>b\<close> only when \<open>a\<close> is undefined.
\<close>

definition truthy :: "string option \<Rightarrow> bool" where
  "truthy s = (case s of None \<Rightarrow> False | Some x \<Rightarrow> x \<noteq> [])"

definition orElse :: "'a option \<Rightarrow> 'a option \<Rightarrow> 'a option" where
  "orElse a b = (case a of Some x \<Rightarrow> Some x | None \<Rightarrow> b)"

text \<open>
  A value raised by user code or by a collaborator, and caught in \<open>#executeJob\<close>. The
  catch block makes two observations of it: whether it is an instance of
  \<open>ResumeWithTask\<close> (then \<open>resumeTask\<close> is its \<open>task\<close>), and its content as the zod
  schemas read it (\<open>shape\<close>). Both are kept, so a value may be a suspension signal and
  have the shape of an error at once.
\<close>

datatype thrown = Thrown (resumeTask: "json option") (shape: json)

text \<open>The data of a structured error: \<open>{message, stack?}\<close>.\<close>

record err =
  err_message :: string
  err_stack :: "string option"

text \<open>
  The \<open>Error\<close> that \<open>buildEndpointUrl\<close> throws, by its message, and the \<open>TypeError\<close>
  that the engine raises when a value is used as what it is not (its message is the
  engine's).
\<close>

datatype js_error = Error string | TypeError

text \<open>
  An engine \<open>TypeError\<close> as a raised value: it is no suspension signal; its message and
  stack are the engine's words and are left out of its shape.
\<close>

definition TypeError_raised :: thrown where
  "TypeError_raised = Thrown None (JObj [(''name'', JStr ''TypeError'')])"

section \<open>Plain objects as dictionaries\<close>

text \<open>
  Every registry of the client is a plain object \<open>{}\<close> used as a dictionary, so a read
  \<open>r[k]\<close> finds an own property, or else a member inherited from \<open>Object.prototype\<close>
  when \<open>k\<close> names one, or else is \<open>undefined\<close>. All inherited members are truthy and
  not nullish: eleven functions, and under \<open>__proto__\<close> the prototype object itself.
\<close>

definition Object_prototype_members :: "string list" where
  "Object_prototype_members =
     [''constructor'', ''__defineGetter__'', ''__defineSetter__'', ''hasOwnProperty'',
      ''__lookupGetter__'', ''__lookupSetter__'', ''isPrototypeOf'',
      ''propertyIsEnumerable'', ''toString'', ''valueOf'', ''__proto__'',
      ''toLocaleString'']"

datatype 'v property = Undefined | Inherited | Own 'v

text \<open>
  A registry is an association list of its entries, in the order they were created. An
  assignment \<open>r[k] = v\<close> is \<open>AList.update k v r\<close>: it replaces the entry in place or
  adds it at the end. Under the key \<open>__proto__\<close> an assignment goes to the setter of
  \<open>Object.prototype\<close> and replaces the prototype of \<open>r\<close>, which a later read of
  \<open>r["__proto__"]\<close> gives back: an entry of the list under \<open>__proto__\<close> stands for that
  replaced prototype. It is read like any entry, but it is no own property, and
  \<open>Object.values\<close> and \<open>Object.entries\<close> leave it out. The members that a replaced
  prototype would pass on under other keys are not followed; \<open>plain_object\<close> says that
  the prototype of a registry has not been replaced.
\<close>

definition lookup :: "(string \<times> 'v) list \<Rightarrow> string \<Rightarrow> 'v property" where
  "lookup r k =
     (case map_of r k of
        Some v \<Rightarrow> Own v
      | None \<Rightarrow> if k \<in> set Object_prototype_members then Inherited else Undefined)"

definition plain_object :: "(string \<times> 'v) list \<Rightarrow> bool" where
  "plain_object r = (''__proto__'' \<notin> fst ` set r)"

text \<open>
  The order of \<open>Object.values\<close> and \<open>Object.entries\<close>: first the keys that are array
  indices (canonical decimal numerals below \<open>2^32 - 1\<close>), in ascending order, then the
  other keys in the order of their creation.
\<close>

definition array_index :: "string \<Rightarrow> nat option" where
  "array_index k =
     (if k \<noteq> [] \<and> list_all (\<lambda>c. c \<in> set ''0123456789'') k
         \<and> (length k = 1 \<or> hd k \<noteq> CHR ''0'')
      then (let n = foldl (\<lambda>a c. 10 * a + (of_char c - 48)) (0::nat) k
            in if n < 4294967295 then Some n else None)
      else None)"

definition Object_entries :: "(string \<times> 'v) list \<Rightarrow> (string \<times> 'v) list" where
  "Object_entries r =
     sort_key (\<lambda>(k, v). case array_index k of Some n \<Rightarrow> n | None \<Rightarrow> 0)
       (filter (\<lambda>(k, v). array_index k \<noteq> None) r)
     @ filter (\<lambda>(k, v). array_index k = None \<and> k \<noteq> ''__proto__'') r"

definition Object_values :: "(string \<times> 'v) list \<Rightarrow> 'v list" where
  "Object_values r = map snd (Object_entries r)"

section \<open>Request bodies and execution contexts\<close>

record event_body =
  ev_id :: string
  ev_name :: string
  ev_context :: json
  ev_timestamp :: json
  ev_payload :: json

record job_ref =
  ref_id :: string
  ref_version :: string

record run_info =
  run_id :: string
  run_rest :: json

record run_job_body =
  rjb_event :: event_body
  rjb_organization :: json
  rjb_environment :: json
  rjb_job :: job_ref
  rjb_run :: run_info
  rjb_account :: json
  rjb_connections :: json
  rjb_tasks :: "json list"

record preprocess_run_body =
  ppb_event :: event_body
  ppb_organization :: json
  ppb_environment :: json
  ppb_job :: job_ref
  ppb_run :: run_info
  ppb_account :: json

record initialize_trigger_body =
  itb_id :: string
  itb_params :: json

text \<open>The parsed headers of a webhook delivery (\<open>x-ts-...\<close>).\<close>

record http_source_headers =
  x_ts_http_url :: string
  x_ts_http_method :: string
  x_ts_http_headers :: json
  x_ts_key :: string
  x_ts_dynamic_id :: "string option"
  x_ts_secret :: string
  x_ts_params :: json
  x_ts_data :: json

text \<open>The event as user code sees it in its context: four fields, no payload.\<close>

record context_event =
  ce_id :: string
  ce_name :: string
  ce_context :: json
  ce_timestamp :: json

record trigger_context =
  ctx_event :: context_event
  ctx_organization :: json
  ctx_environment :: json
  ctx_job :: job_ref
  ctx_run :: run_info
  ctx_account :: json

record trigger_preprocess_context =
  pctx_event :: context_event
  pctx_organization :: json
  pctx_environment :: json
  pctx_job :: job_ref
  pctx_run :: run_info
  pctx_account :: json

section \<open>Jobs, triggers and sources\<close>

record integration =
  integration_id :: string
  usesLocalAuth :: bool

text \<open>
  The \<open>IO\<close> object built for one run, by the fields the source passes to its
  constructor (the api client, the logger and the client itself are collaborators and
  carry no data of the run).
\<close>

record io =
  io_id :: string
  cachedTasks :: "json list"
  io_context :: trigger_context

text \<open>
  Modelled from the spec: \<open>createIOWithIntegrations\<close> (ioWithIntegrations.ts is not among
  the sources) decorates the IO object with the integration-specific helpers declared
  by the job; the decorated object is the IO object together with the connections of the
  request and the integrations of the job.
\<close>

record io_with_integrations =
  iowi_io :: io
  iowi_connections :: json
  iowi_integrations :: "(string \<times> integration) list"

definition createIOWithIntegrations ::
  "io \<Rightarrow> json \<Rightarrow> (string \<times> integration) list \<Rightarrow> io_with_integrations" where
  "createIOWithIntegrations i connections integrations =
     \<lparr>iowi_io = i, iowi_connections = connections, iowi_integrations = integrations\<rparr>"

text \<open>
  An event specification. \<open>parsePayload\<close> decodes a raw payload or raises;
  \<open>runElements\<close> is optional user code.
\<close>

record event_spec =
  es_name :: string
  es_title :: string
  es_source :: string
  es_icon :: string
  parsePayload :: "json \<Rightarrow> thrown + json"
  runElements :: "(json \<Rightarrow> thrown + json list) option"

record handle_trigger_source =
  hs_key :: string
  hs_dynamicId :: "string option"
  hs_secret :: string
  hs_params :: json
  hs_data :: json

record http_source_request =
  hr_url :: string
  hr_method :: string
  hr_headers :: json
  hr_rawBody :: json

text \<open>A response of a source to the origin of a webhook: status and JSON body.\<close>

record source_response =
  sr_status :: nat
  sr_body :: json

record handle_result =
  hres_events :: "json list"
  hres_response :: "source_response option"

type_synonym source_handler =
  "handle_trigger_source \<Rightarrow> http_source_request \<Rightarrow> thrown + handle_result option"

type_synonym run_function =
  "json \<Rightarrow> io_with_integrations \<Rightarrow> trigger_context \<Rightarrow> thrown + json"

record external_source =
  src_channel :: string
  src_version :: string
  src_integration :: integration
  src_register ::
    "json \<Rightarrow> json \<Rightarrow> io_with_integrations \<Rightarrow> trigger_context
       \<Rightarrow> thrown + (string \<times> json) list option"
  src_handle :: source_handler

record dynamic_trigger =
  dt_id :: string
  dt_source :: external_source
  dt_event :: event_spec

datatype trigger =
    EventTrigger event_spec json
  | DynamicTrigger dynamic_trigger

fun trigger_event :: "trigger \<Rightarrow> event_spec" where
  "trigger_event (EventTrigger e f) = e"
| "trigger_event (DynamicTrigger t) = dt_event t"

record job =
  j_id :: string
  j_name :: string
  j_version :: string
  j_enabled :: bool
  j_trigger :: trigger
  j_integrations :: "(string \<times> integration) list"
  j_queue :: "(string \<times> nat) option"
  j_startPosition :: "string option"
  j_run :: run_function
  j_internal :: bool

record source_metadata =
  sm_channel :: string
  sm_key :: string
  sm_params :: json
  sm_events :: "string list"
  sm_clientId :: "string option"

section \<open>The client and its collaborators\<close>

record trigger_client_options =
  opt_apiKey :: "string option"
  opt_apiUrl :: "string option"
  opt_endpoint :: "string option"
  opt_path :: "string option"
  opt_logLevel :: "string option"

text \<open>The state of a \<open>TriggerClient\<close>: its options, its six registries, name and endpoint.\<close>

record trigger_client =
  cl_options :: trigger_client_options
  registeredJobs :: "(string \<times> job) list"
  registeredSources :: "(string \<times> source_metadata) list"
  registeredHttpSourceHandlers :: "(string \<times> source_handler) list"
  registeredDynamicTriggers :: "(string \<times> dynamic_trigger) list"
  jobMetadataByDynamicTriggers :: "(string \<times> job_ref list) list"
  registeredSchedules :: "(string \<times> job_ref list) list"
  client_name :: string
  endpoint :: string

record endpoint_registration =
  reg_url :: string
  reg_name :: string

text \<open>
  What the source imports from files that are not among the sources, taken as
  parameters: the zod schemas of \<open>@trigger.dev/internal\<close> (\<open>safeParse\<close> gives the parsed
  data or fails, \<open>parse\<close> gives it or raises), the constant \<open>REGISTER_SOURCE_EVENT\<close>,
  \<open>ApiClient.registerEndpoint\<close>, \<open>Job.toJSON\<close>, \<open>IO.updateSource\<close> and
  \<open>DynamicTrigger.registeredTriggerForParams\<close>. The theorems hold for every choice of
  them.
\<close>

record externals =
  InitializeTriggerBodySchema :: "json \<Rightarrow> initialize_trigger_body option"
  RunJobBodySchema :: "json \<Rightarrow> run_job_body option"
  PreprocessRunBodySchema :: "json \<Rightarrow> preprocess_run_body option"
  HttpSourceRequestHeadersSchema :: "(string \<rightharpoonup> string) \<Rightarrow> http_source_headers option"
  ErrorWithStackSchema :: "thrown \<Rightarrow> err option"
  ErrorWithMessage :: "thrown \<Rightarrow> err option"
  RegisterSourceEventSchema_parse :: "json \<Rightarrow> thrown + json"
  REGISTER_SOURCE_EVENT :: string
  registerEndpoint :: "endpoint_registration \<Rightarrow> thrown + unit"
  toJSON :: "job \<Rightarrow> json"
  updateSource :: "io_with_integrations \<Rightarrow> string \<Rightarrow> json \<Rightarrow> thrown + json"
  registeredTriggerForParams :: "dynamic_trigger \<Rightarrow> json \<Rightarrow> json"

text \<open>
  Modelled from the spec: the two error schemas (declared in \<open>@trigger.dev/internal\<close>,
  not among the sources). An "error with stack" is structured with a message and a
  stack; an "error with message" has the message only.
\<close>

definition ErrorWithStackSchema_safeParse :: "thrown \<Rightarrow> err option" where
  "ErrorWithStackSchema_safeParse e =
     (case shape e of
        JObj fs \<Rightarrow>
          (case (map_of fs ''message'', map_of fs ''stack'') of
             (Some (JStr m), Some (JStr s)) \<Rightarrow> Some \<lparr>err_message = m, err_stack = Some s\<rparr>
           | _ \<Rightarrow> None)
      | _ \<Rightarrow> None)"

definition ErrorWithMessage_safeParse :: "thrown \<Rightarrow> err option" where
  "ErrorWithMessage_safeParse e =
     (case shape e of
        JObj fs \<Rightarrow>
          (case map_of fs ''message'' of
             Some (JStr m) \<Rightarrow> Some \<lparr>err_message = m, err_stack = None\<rparr>
           | _ \<Rightarrow> None)
      | _ \<Rightarrow> None)"

section \<open>Responses\<close>

record execute_result =
  res_completed :: bool
  res_output :: "json option"
  res_task :: "json option"
  res_error :: "err option"

text \<open>
  The snapshot of a GET request. The jobs of a dynamic trigger are
  \<open>jobMetadataByDynamicTriggers[trigger.id] ?? []\<close>: a list, or a member inherited
  under the id.
\<close>

record endpoint_data =
  ed_jobs :: "json list"
  ed_sources :: "source_metadata list"
  ed_dynamicTriggers :: "(string \<times> job_ref list property) list"
  ed_dynamicSchedules :: "(string \<times> job_ref list) list"

text \<open>The bodies \<open>handleRequest\<close> answers with, one constructor per object literal.\<close>

datatype response_body =
    Message string
  | JobBody json
  | EndpointData endpoint_data
  | TriggerBody json
  | ErrorBody err
  | ExecuteBody (b_completed: bool) (b_output: "json option") (b_executionId: string)
      (b_task: "json option")
  | PreprocessBody (b_abort: bool) (b_elements: "json list")
  | HttpSourceBody (b_events: "json list option") (b_response: source_response)

record normalized_response =
  status :: nat
  body :: response_body

record normalized_request =
  req_method :: string
  req_headers :: "string \<rightharpoonup> string"
  req_body :: json

section \<open>Authorization and the endpoint URL\<close>

text \<open>\<open>process.env\<close> is a map from variable names to strings, read when the code runs.\<close>

definition authorized :: "(string \<rightharpoonup> string) \<Rightarrow> trigger_client \<Rightarrow> string option \<Rightarrow> bool" where
  "authorized env c apiKey =
     (let localApiKey = orElse (opt_apiKey (cl_options c)) (env ''TRIGGER_API_KEY'')
      in if \<not> truthy localApiKey then False else apiKey = localApiKey)"

definition path_or_empty :: "string option \<Rightarrow> string" where
  "path_or_empty path = (case path of Some p \<Rightarrow> p | None \<Rightarrow> [])"

definition buildEndpointUrl :: "(string \<rightharpoonup> string) \<Rightarrow> string option \<Rightarrow> js_error + string" where
  "buildEndpointUrl env path =
     (let endpoint = env ''TRIGGER_ENDPOINT'' in
      if truthy endpoint then Inr (the endpoint @ path_or_empty path)
      else
        let host =
          orElse (orElse (orElse (orElse (env ''TRIGGER_HOST'') (env ''HOST''))
            (env ''HOSTNAME'')) (env ''NOW_URL'')) (env ''VERCEL_URL'')
        in if truthy host then Inr (''https://'' @ the host @ path_or_empty path)
           else Inl (Error (''Could not determine the endpoint for the trigger client. '' @
                  ''Please set the TRIGGER_ENDPOINT environment variable.'')))"

text \<open>
  The constructor. \<open>options.endpoint ?? buildEndpointUrl(options.path)\<close> is evaluated
  first, so an error of \<open>buildEndpointUrl\<close> leaves the constructor before anything else
  is built. The registries start empty.
\<close>

definition TriggerClient ::
  "(string \<rightharpoonup> string) \<Rightarrow> string \<Rightarrow> trigger_client_options \<Rightarrow> js_error + trigger_client" where
  "TriggerClient env name opts =
     (case (case opt_endpoint opts of
              Some e \<Rightarrow> Inr e
            | None \<Rightarrow> buildEndpointUrl env (opt_path opts)) of
        Inl e \<Rightarrow> Inl e
      | Inr ep \<Rightarrow>
          Inr \<lparr>cl_options = opts, registeredJobs = [], registeredSources = [],
               registeredHttpSourceHandlers = [], registeredDynamicTriggers = [],
               jobMetadataByDynamicTriggers = [], registeredSchedules = [],
               client_name = name, endpoint = ep\<rparr>)"

definition listen :: "externals \<Rightarrow> trigger_client \<Rightarrow> thrown + unit" where
  "listen ext c = registerEndpoint ext \<lparr>reg_url = endpoint c, reg_name = client_name c\<rparr>"

section \<open>Execution contexts\<close>

definition createRunContext :: "run_job_body \<Rightarrow> trigger_context" where
  "createRunContext execution =
     (let event = rjb_event execution in
      \<lparr>ctx_event = \<lparr>ce_id = ev_id event, ce_name = ev_name event,
                     ce_context = ev_context event, ce_timestamp = ev_timestamp event\<rparr>,
       ctx_organization = rjb_organization execution,
       ctx_environment = rjb_environment execution,
       ctx_job = rjb_job execution,
       ctx_run = rjb_run execution,
       ctx_account = rjb_account execution\<rparr>)"

definition createPreprocessRunContext :: "preprocess_run_body \<Rightarrow> trigger_preprocess_context" where
  "createPreprocessRunContext b =
     (let event = ppb_event b in
      \<lparr>pctx_event = \<lparr>ce_id = ev_id event, ce_name = ev_name event,
                      ce_context = ev_context event, ce_timestamp = ev_timestamp event\<rparr>,
       pctx_organization = ppb_organization b,
       pctx_environment = ppb_environment b,
       pctx_job = ppb_job b,
       pctx_run = ppb_run b,
       pctx_account = ppb_account b\<rparr>)"

section \<open>Preprocessing and executing a run\<close>

record preprocess_result =
  pre_abort :: bool
  pre_elements :: "json list"

text \<open>
  \<open>#preprocessRun\<close> has no \<open>try\<close>: what \<open>parsePayload\<close> or \<open>runElements\<close> raises leaves
  the function (\<open>Inl\<close>).
\<close>

definition preprocessRun :: "preprocess_run_body \<Rightarrow> job \<Rightarrow> thrown + preprocess_result" where
  "preprocessRun b job =
     (let ctx = createPreprocessRunContext b in
      case parsePayload (trigger_event (j_trigger job))
             (nullish_or (ev_payload (ppb_event b)) (JObj [])) of
        Inl e \<Rightarrow> Inl e
      | Inr parsedPayload \<Rightarrow>
          (case runElements (trigger_event (j_trigger job)) of
             None \<Rightarrow> Inr \<lparr>pre_abort = False, pre_elements = []\<rparr>
           | Some f \<Rightarrow>
               (case f parsedPayload of
                  Inl e \<Rightarrow> Inl e
                | Inr elements \<Rightarrow> Inr \<lparr>pre_abort = False, pre_elements = elements\<rparr>)))"

text \<open>
  The run itself: \<open>#executeJob\<close> builds the context and the decorated IO object, and in
  its \<open>try\<close> parses the payload and calls the run function of the job with the parsed
  payload, the IO object and the context. Parsing and running may raise (\<open>Inl\<close>); user
  code is taken to return or raise.
\<close>

definition runJob :: "run_job_body \<Rightarrow> job \<Rightarrow> thrown + json" where
  "runJob b job =
     (let ctx = createRunContext b;
          i = \<lparr>io_id = run_id (rjb_run b), cachedTasks = rjb_tasks b, io_context = ctx\<rparr>;
          ioWithConnections = createIOWithIntegrations i (rjb_connections b) (j_integrations job)
      in case parsePayload (trigger_event (j_trigger job))
                (nullish_or (ev_payload (rjb_event b)) (JObj [])) of
           Inl e \<Rightarrow> Inl e
         | Inr payload \<Rightarrow> j_run job payload ioWithConnections ctx)"

text \<open>\<open>#executeJob\<close>: the \<open>try\<close>, and the \<open>catch\<close> with its tests in the order of the source.\<close>

definition executeJob :: "externals \<Rightarrow> run_job_body \<Rightarrow> job \<Rightarrow> execute_result" where
  "executeJob ext b job =
     (case runJob b job of
        Inr out \<Rightarrow>
          \<lparr>res_completed = True, res_output = Some out, res_task = None, res_error = None\<rparr>
      | Inl e \<Rightarrow>
          (case resumeTask e of
             Some t \<Rightarrow>
               \<lparr>res_completed = False, res_output = None, res_task = Some t, res_error = None\<rparr>
           | None \<Rightarrow>
               (case ErrorWithStackSchema ext e of
                  Some d \<Rightarrow>
                    \<lparr>res_completed = True, res_output = None, res_task = None,
                     res_error = Some d\<rparr>
                | None \<Rightarrow>
                    (case ErrorWithMessage ext e of
                       Some d \<Rightarrow>
                         \<lparr>res_completed = True, res_output = None, res_task = None,
                          res_error = Some d\<rparr>
                     | None \<Rightarrow>
                         \<lparr>res_completed = True, res_output = None, res_task = None,
                          res_error =
                            Some \<lparr>err_message = ''Unknown error'', err_stack = None\<rparr>\<rparr>))))"

section \<open>Webhook deliveries\<close>

text \<open>The \<open>events\<close> of a result are \<open>None\<close> when \<open>results.events\<close> is undefined.\<close>

record http_source_result =
  hsr_response :: source_response
  hsr_events :: "json list option"

definition ok_response :: source_response where
  "ok_response = \<lparr>sr_status = 200, sr_body = JObj [(''ok'', JBool True)]\<rparr>"

text \<open>What both branches of \<open>#handleHttpSourceRequest\<close> do with the results of a handler.\<close>

definition source_results :: "handle_result option \<Rightarrow> http_source_result" where
  "source_results results =
     (case results of
        None \<Rightarrow> \<lparr>hsr_response = ok_response, hsr_events = Some []\<rparr>
      | Some r \<Rightarrow>
          \<lparr>hsr_response = (case hres_response r of Some x \<Rightarrow> x | None \<Rightarrow> ok_response),
           hsr_events = Some (hres_events r)\<rparr>)"

text \<open>
  \<open>#handleHttpSourceRequest\<close>. A member inherited under the dynamic id is truthy and has
  no \<open>source\<close>, so \<open>dynamicTrigger.source.handle\<close> raises a \<open>TypeError\<close>. A member
  inherited under the key is called as the handler, with \<open>this\<close> undefined:
  \<open>constructor\<close> returns its first argument and \<open>toString\<close> a string, both truthy
  results without \<open>events\<close> or \<open>response\<close>; the other functions raise a \<open>TypeError\<close>
  for the undefined \<open>this\<close>, and the prototype object under \<open>__proto__\<close> is not
  callable.
\<close>

definition handleHttpSourceRequest ::
  "trigger_client \<Rightarrow> handle_trigger_source \<Rightarrow> http_source_request
     \<Rightarrow> thrown + http_source_result" where
  "handleHttpSourceRequest c source sourceRequest =
     (if truthy (hs_dynamicId source) then
        (case lookup (registeredDynamicTriggers c) (the (hs_dynamicId source)) of
           Undefined \<Rightarrow> Inr \<lparr>hsr_response = ok_response, hsr_events = Some []\<rparr>
         | Inherited \<Rightarrow> Inl TypeError_raised
         | Own dynamicTrigger \<Rightarrow>
             (case src_handle (dt_source dynamicTrigger) source sourceRequest of
                Inl e \<Rightarrow> Inl e
              | Inr results \<Rightarrow> Inr (source_results results)))
      else
        (case lookup (registeredHttpSourceHandlers c) (hs_key source) of
           Undefined \<Rightarrow> Inr \<lparr>hsr_response = ok_response, hsr_events = Some []\<rparr>
         | Inherited \<Rightarrow>
             if hs_key source = ''constructor'' \<or> hs_key source = ''toString''
             then Inr \<lparr>hsr_response = ok_response, hsr_events = None\<rparr>
             else Inl TypeError_raised
         | Own handler \<Rightarrow>
             (case handler source sourceRequest of
                Inl e \<Rightarrow> Inl e
              | Inr results \<Rightarrow> Inr (source_results results))))"

section \<open>The request dispatcher\<close>

text \<open>
  \<open>handleRequest\<close> returns a response (\<open>Inr\<close>), or the returned promise is rejected
  with a value that nothing in the function caught (\<open>Inl\<close>). Where a registry is read
  under a key that names a member of \<open>Object.prototype\<close> and has no entry, the member
  found is truthy, passes the test for a missing entry and is used as a job or a
  trigger: \<open>job.toJSON\<close> (called by the GET branch, and by \<open>#executeJob\<close> for its debug
  message before the \<open>try\<close>), \<open>job.trigger.event\<close> (in \<open>#preprocessRun\<close>) and
  \<open>dynamicTrigger.registeredTriggerForParams\<close> then raise a \<open>TypeError\<close>.
\<close>

definition handleRequest ::
  "externals \<Rightarrow> (string \<rightharpoonup> string) \<Rightarrow> trigger_client \<Rightarrow> normalized_request
     \<Rightarrow> thrown + normalized_response" where
  "handleRequest ext env c request =
     (let apiKey = req_headers request ''x-trigger-api-key'' in
      if \<not> authorized env c apiKey then
        Inr \<lparr>status = 401, body = Message ''Unauthorized''\<rparr>
      else if req_method request = ''GET'' then
        (let action = req_headers request ''x-trigger-action'' in
         if action = Some ''PING'' then Inr \<lparr>status = 200, body = Message ''PONG''\<rparr>
         else if truthy (req_headers request ''x-trigger-job-id'') then
           (case lookup (registeredJobs c) (the (req_headers request ''x-trigger-job-id'')) of
              Undefined \<Rightarrow> Inr \<lparr>status = 404, body = Message ''Job not found''\<rparr>
            | Inherited \<Rightarrow> Inl TypeError_raised
            | Own job \<Rightarrow> Inr \<lparr>status = 200, body = JobBody (toJSON ext job)\<rparr>)
         else
           Inr \<lparr>status = 200,
                body = EndpointData
                  \<lparr>ed_jobs = map (toJSON ext) (Object_values (registeredJobs c)),
                   ed_sources = Object_values (registeredSources c),
                   ed_dynamicTriggers =
                     map (\<lambda>trigger.
                            (dt_id trigger,
                             case lookup (jobMetadataByDynamicTriggers c) (dt_id trigger) of
                               Undefined \<Rightarrow> Own []
                             | Inherited \<Rightarrow> Inherited
                             | Own jobs \<Rightarrow> Own jobs))
                       (Object_values (registeredDynamicTriggers c)),
                   ed_dynamicSchedules = Object_entries (registeredSchedules c)\<rparr>\<rparr>)
      else if req_method request = ''POST'' then
        (let action = req_headers request ''x-trigger-action'' in
         if action = Some ''INITIALIZE'' then
           (case listen ext c of
              Inl e \<Rightarrow> Inl e
            | Inr u \<Rightarrow> Inr \<lparr>status = 200, body = Message ''Initialized''\<rparr>)
         else if action = Some ''INITIALIZE_TRIGGER'' then
           (case InitializeTriggerBodySchema ext (req_body request) of
              None \<Rightarrow> Inr \<lparr>status = 400, body = Message ''Invalid trigger body''\<rparr>
            | Some b \<Rightarrow>
                (case lookup (registeredDynamicTriggers c) (itb_id b) of
                   Undefined \<Rightarrow>
                     Inr \<lparr>status = 404, body = Message ''Dynamic trigger not found''\<rparr>
                 | Inherited \<Rightarrow> Inl TypeError_raised
                 | Own dynamicTrigger \<Rightarrow>
                     Inr \<lparr>status = 200,
                          body = TriggerBody
                            (registeredTriggerForParams ext dynamicTrigger (itb_params b))\<rparr>))
         else if action = Some ''EXECUTE_JOB'' then
           (case RunJobBodySchema ext (req_body request) of
              None \<Rightarrow> Inr \<lparr>status = 400, body = Message ''Invalid execution''\<rparr>
            | Some execution \<Rightarrow>
                (case lookup (registeredJobs c) (ref_id (rjb_job execution)) of
                   Undefined \<Rightarrow> Inr \<lparr>status = 404, body = Message ''Job not found''\<rparr>
                 | Inherited \<Rightarrow> Inl TypeError_raised
                 | Own job \<Rightarrow>
                     (let results = executeJob ext execution job in
                      case res_error results of
                        Some e \<Rightarrow> Inr \<lparr>status = 500, body = ErrorBody e\<rparr>
                      | None \<Rightarrow>
                          Inr \<lparr>status = 200,
                               body = ExecuteBody (res_completed results) (res_output results)
                                 (run_id (rjb_run execution)) (res_task results)\<rparr>)))
         else if action = Some ''PREPROCESS_RUN'' then
           (case PreprocessRunBodySchema ext (req_body request) of
              None \<Rightarrow> Inr \<lparr>status = 400, body = Message ''Invalid body''\<rparr>
            | Some b \<Rightarrow>
                (case lookup (registeredJobs c) (ref_id (ppb_job b)) of
                   Undefined \<Rightarrow> Inr \<lparr>status = 404, body = Message ''Job not found''\<rparr>
                 | Inherited \<Rightarrow> Inl TypeError_raised
                 | Own job \<Rightarrow>
                     (case preprocessRun b job of
                        Inl e \<Rightarrow> Inl e
                      | Inr results \<Rightarrow>
                          Inr \<lparr>status = 200,
                               body = PreprocessBody (pre_abort results)
                                 (pre_elements results)\<rparr>)))
         else if action = Some ''DELIVER_HTTP_SOURCE_REQUEST'' then
           (case HttpSourceRequestHeadersSchema ext (req_headers request) of
              None \<Rightarrow> Inr \<lparr>status = 400, body = Message ''Invalid headers''\<rparr>
            | Some headers \<Rightarrow>
                (let sourceRequest =
                       \<lparr>hr_url = x_ts_http_url headers, hr_method = x_ts_http_method headers,
                        hr_headers = x_ts_http_headers headers, hr_rawBody = req_body request\<rparr>;
                     source =
                       \<lparr>hs_key = x_ts_key headers, hs_dynamicId = x_ts_dynamic_id headers,
                        hs_secret = x_ts_secret headers, hs_params = x_ts_params headers,
                        hs_data = x_ts_data headers\<rparr>
                 in case handleHttpSourceRequest c source sourceRequest of
                      Inl e \<Rightarrow> Inl e
                    | Inr r \<Rightarrow>
                        Inr \<lparr>status = 200,
                             body = HttpSourceBody (hsr_events r) (hsr_response r)\<rparr>))
         else Inr \<lparr>status = 405, body = Message ''Method not allowed''\<rparr>)
      else Inr \<lparr>status = 405, body = Message ''Method not allowed''\<rparr>)"

section \<open>Registration\<close>

text \<open>
  The registration methods return the client as they leave it (\<open>Inr\<close>), or raise
  (\<open>Inl\<close>) an error together with the client as it is at that moment.

  \<open>attachJobToDynamicTrigger\<close>: \<open>jobs\<close> is the list of the trigger, or \<open>[]\<close> when the
  read is nullish. A member inherited under the id is not nullish and has no \<open>push\<close>:
  \<open>jobs.push\<close> raises a \<open>TypeError\<close> and nothing has been assigned.
\<close>

definition attachJobToDynamicTrigger ::
  "trigger_client \<Rightarrow> job \<Rightarrow> dynamic_trigger
     \<Rightarrow> (js_error \<times> trigger_client) + trigger_client" where
  "attachJobToDynamicTrigger c job trigger =
     (case (case lookup (jobMetadataByDynamicTriggers c) (dt_id trigger) of
              Undefined \<Rightarrow> Some []
            | Inherited \<Rightarrow> None
            | Own js \<Rightarrow> Some js) of
        None \<Rightarrow> Inl (TypeError, c)
      | Some jobs \<Rightarrow>
          (let jobs' = jobs @ [\<lparr>ref_id = j_id job, ref_version = j_version job\<rparr>]
           in Inr (c\<lparr>jobMetadataByDynamicTriggers :=
                       AList.update (dt_id trigger) jobs' (jobMetadataByDynamicTriggers c)\<rparr>)))"

text \<open>
  Modelled from the spec: \<open>attachToJob\<close> of the two trigger variants (eventTrigger.ts and
  dynamic.ts are not among the sources). An event trigger has nothing more to attach; a
  dynamic trigger records the job among its job references.
\<close>

fun attachToJob ::
  "trigger \<Rightarrow> trigger_client \<Rightarrow> job \<Rightarrow> (js_error \<times> trigger_client) + trigger_client" where
  "attachToJob (EventTrigger e f) c job = Inr c"
| "attachToJob (DynamicTrigger t) c job = attachJobToDynamicTrigger c job t"

definition attach ::
  "trigger_client \<Rightarrow> job \<Rightarrow> (js_error \<times> trigger_client) + trigger_client" where
  "attach c job =
     (if \<not> j_enabled job then Inr c
      else attachToJob (j_trigger job)
             (c\<lparr>registeredJobs := AList.update (j_id job) job (registeredJobs c)\<rparr>) job)"

text \<open>
  Modelled from the spec: the constructor of \<open>Job\<close> (job.ts is not among the sources).
  A synthesized job is attached to the client it is constructed with.
\<close>

definition new_Job ::
  "trigger_client \<Rightarrow> job \<Rightarrow> (js_error \<times> trigger_client) + trigger_client" where
  "new_Job c job = attach c job"

definition registerSourceEvent :: "externals \<Rightarrow> event_spec" where
  "registerSourceEvent ext =
     \<lparr>es_name = REGISTER_SOURCE_EVENT ext, es_title = ''Register Source'',
      es_source = ''internal'', es_icon = ''register-source'',
      parsePayload = RegisterSourceEventSchema_parse ext, runElements = None\<rparr>"

text \<open>
  \<open>new Set(xs)\<close> keeps the first occurrence of each element, in insertion order, and
  \<open>Array.from\<close> lists it in that order.
\<close>

definition Set_add :: "'a list \<Rightarrow> 'a \<Rightarrow> 'a list" where
  "Set_add s x = (if x \<in> set s then s else s @ [x])"

definition Array_from_Set :: "'a list \<Rightarrow> 'a list" where
  "Array_from_Set xs = foldl Set_add [] xs"

text \<open>The object spread \<open>{...base, ...fs}\<close>: a later property replaces an earlier one in place.\<close>

definition spread :: "(string \<times> json) list \<Rightarrow> (string \<times> json) list \<Rightarrow> (string \<times> json) list" where
  "spread base fs = fold (\<lambda>(k, v). AList.update k v) fs base"

record attach_source_options =
  as_key :: string
  as_source :: external_source
  as_event :: event_spec
  as_params :: json

text \<open>
  \<open>attachSource\<close>. The handler is assigned first. A member inherited under the key is
  truthy, so no entry is initialised for it, and it has no \<open>events\<close>: the spread of
  \<open>registeredSource.events\<close> raises a \<open>TypeError\<close>, with the handler already assigned
  and nothing else done.
\<close>

definition attachSource ::
  "externals \<Rightarrow> trigger_client \<Rightarrow> attach_source_options
     \<Rightarrow> (js_error \<times> trigger_client) + trigger_client" where
  "attachSource ext c opts =
     (let c1 = c\<lparr>registeredHttpSourceHandlers :=
                  AList.update (as_key opts) (src_handle (as_source opts))
                    (registeredHttpSourceHandlers c)\<rparr>
      in case (case lookup (registeredSources c) (as_key opts) of
                 Own s \<Rightarrow> Some s
               | Inherited \<Rightarrow> None
               | Undefined \<Rightarrow>
                   Some \<lparr>sm_channel = src_channel (as_source opts),
                         sm_key = as_key opts,
                         sm_params = as_params opts,
                         sm_events = [],
                         sm_clientId =
                           (if \<not> usesLocalAuth (src_integration (as_source opts))
                            then Some (integration_id (src_integration (as_source opts)))
                            else None)\<rparr>) of
           None \<Rightarrow> Inl (TypeError, c1)
         | Some registeredSource \<Rightarrow>
      (let registeredSource' =
            registeredSource
              \<lparr>sm_events :=
                 Array_from_Set (sm_events registeredSource @ [es_name (as_event opts)])\<rparr>;
          c' = c1\<lparr>registeredSources :=
                   AList.update (as_key opts) registeredSource' (registeredSources c)\<rparr>
      in new_Job c'
           \<lparr>j_id = as_key opts,
            j_name = as_key opts,
            j_version = src_version (as_source opts),
            j_enabled = True,
            j_trigger =
              EventTrigger (registerSourceEvent ext)
                (JObj [(''source'', JObj [(''key'', JArr [JStr (as_key opts)])])]),
            j_integrations = [(''integration'', src_integration (as_source opts))],
            j_queue = Some (as_key opts, 1),
            j_startPosition = Some ''initial'',
            j_run =
              (\<lambda>event i ctx.
                 case src_register (as_source opts) (as_params opts) event i ctx of
                   Inl e \<Rightarrow> Inl e
                 | Inr None \<Rightarrow> Inr JUndefined
                 | Inr (Some updates) \<Rightarrow>
                     updateSource ext i ''update-source''
                       (JObj (spread [(''key'', JStr (as_key opts))] updates))),
            j_internal = True\<rparr>))"


text \<open>The entry \<open>attachSource\<close> creates for a key that has none (its object literal).\<close>

definition fresh_source :: "attach_source_options \<Rightarrow> source_metadata" where
  "fresh_source opts =
     \<lparr>sm_channel = src_channel (as_source opts), sm_key = as_key opts,
      sm_params = as_params opts, sm_events = [],
      sm_clientId = (if \<not> usesLocalAuth (src_integration (as_source opts))
                     then Some (integration_id (src_integration (as_source opts))) else None)\<rparr>"

section \<open>Concrete inputs\<close>

text \<open>
  A small client with one job, and values of each kind a run can raise. The job's run
  function looks at the field \<open>mode\<close> of its payload and returns, suspends or fails
  accordingly; its event accepts objects as payloads and raises on anything else.
\<close>

definition example_suspension :: thrown where
  "example_suspension =
     Thrown (Some (JStr ''task-1''))
       (JObj [(''message'', JStr ''resume''), (''stack'', JStr ''at io'')])"

definition example_error_with_stack :: thrown where
  "example_error_with_stack =
     Thrown None (JObj [(''message'', JStr ''boom''), (''stack'', JStr ''at run'')])"

definition example_error_with_message :: thrown where
  "example_error_with_message = Thrown None (JObj [(''message'', JStr ''boom'')])"

definition example_unknown_error :: thrown where
  "example_unknown_error = Thrown None (JStr ''boom'')"

definition example_parse_error :: thrown where
  "example_parse_error = Thrown None (JObj [(''message'', JStr ''Invalid payload'')])"

definition example_event :: event_spec where
  "example_event =
     \<lparr>es_name = ''user.created'', es_title = ''User created'', es_source = ''example'',
      es_icon = ''user'',
      parsePayload = (\<lambda>v. case v of JObj fs \<Rightarrow> Inr v | _ \<Rightarrow> Inl example_parse_error),
      runElements = Some (\<lambda>p. Inr [p])\<rparr>"

definition example_run :: run_function where
  "example_run payload i ctx =
     (case payload of
        JObj fs \<Rightarrow>
          (case map_of fs ''mode'' of
             Some (JStr m) \<Rightarrow>
               if m = ''suspend'' then Inl example_suspension
               else if m = ''stack'' then Inl example_error_with_stack
               else if m = ''message'' then Inl example_error_with_message
               else if m = ''unknown'' then Inl example_unknown_error
               else Inr (JStr ''done'')
           | _ \<Rightarrow> Inr (JStr ''done''))
      | _ \<Rightarrow> Inr (JStr ''done''))"

definition example_job :: job where
  "example_job =
     \<lparr>j_id = ''job-1'', j_name = ''Example job'', j_version = ''1.0.0'', j_enabled = True,
      j_trigger = EventTrigger example_event (JObj []), j_integrations = [],
      j_queue = None, j_startPosition = None, j_run = example_run, j_internal = False\<rparr>"

definition example_event_body :: "json \<Rightarrow> event_body" where
  "example_event_body payload =
     \<lparr>ev_id = ''evt-1'', ev_name = ''user.created'', ev_context = JObj [],
      ev_timestamp = JStr ''2023-06-01T00:00:00Z'', ev_payload = payload\<rparr>"

definition example_run_body :: "string \<Rightarrow> string \<Rightarrow> json \<Rightarrow> run_job_body" where
  "example_run_body j r payload =
     \<lparr>rjb_event = example_event_body payload, rjb_organization = JObj [],
      rjb_environment = JObj [], rjb_job = \<lparr>ref_id = j, ref_version = ''1.0.0''\<rparr>,
      rjb_run = \<lparr>run_id = r, run_rest = JObj []\<rparr>, rjb_account = JUndefined,
      rjb_connections = JObj [], rjb_tasks = []\<rparr>"

definition example_preprocess_body :: "string \<Rightarrow> string \<Rightarrow> json \<Rightarrow> preprocess_run_body" where
  "example_preprocess_body j r payload =
     \<lparr>ppb_event = example_event_body payload, ppb_organization = JObj [],
      ppb_environment = JObj [], ppb_job = \<lparr>ref_id = j, ref_version = ''1.0.0''\<rparr>,
      ppb_run = \<lparr>run_id = r, run_rest = JObj []\<rparr>, ppb_account = JUndefined\<rparr>"

text \<open>Example schemas: a body is an object with a job id, a run id and a payload.\<close>

definition example_body_fields :: "json \<Rightarrow> (string \<times> string \<times> json) option" where
  "example_body_fields v =
     (case v of
        JObj fs \<Rightarrow>
          (case map_of fs ''job'' of
             Some (JStr j) \<Rightarrow>
               (case map_of fs ''run'' of
                  Some (JStr r) \<Rightarrow>
                    Some (j, r, case map_of fs ''payload'' of Some p \<Rightarrow> p | None \<Rightarrow> JUndefined)
                | _ \<Rightarrow> None)
           | _ \<Rightarrow> None)
      | _ \<Rightarrow> None)"

definition example_headers_schema :: "(string \<rightharpoonup> string) \<Rightarrow> http_source_headers option" where
  "example_headers_schema h =
     (case h ''x-ts-key'' of
        Some k \<Rightarrow>
          (case h ''x-ts-secret'' of
             Some s \<Rightarrow>
               Some \<lparr>x_ts_http_url = ''https://example.com/hook'', x_ts_http_method = ''POST'',
                     x_ts_http_headers = JObj [], x_ts_key = k,
                     x_ts_dynamic_id = h ''x-ts-dynamic-id'', x_ts_secret = s,
                     x_ts_params = JUndefined, x_ts_data = JUndefined\<rparr>
           | None \<Rightarrow> None)
      | None \<Rightarrow> None)"

definition example_externals :: externals where
  "example_externals =
     \<lparr>InitializeTriggerBodySchema =
        (\<lambda>v. case v of
                JObj fs \<Rightarrow>
                  (case map_of fs ''id'' of
                     Some (JStr i) \<Rightarrow> Some \<lparr>itb_id = i, itb_params = JObj []\<rparr>
                   | _ \<Rightarrow> None)
              | _ \<Rightarrow> None),
      RunJobBodySchema =
        (\<lambda>v. map_option (\<lambda>(j, r, p). example_run_body j r p) (example_body_fields v)),
      PreprocessRunBodySchema =
        (\<lambda>v. map_option (\<lambda>(j, r, p). example_preprocess_body j r p) (example_body_fields v)),
      HttpSourceRequestHeadersSchema = example_headers_schema,
      ErrorWithStackSchema = ErrorWithStackSchema_safeParse,
      ErrorWithMessage = ErrorWithMessage_safeParse,
      RegisterSourceEventSchema_parse = Inr,
      REGISTER_SOURCE_EVENT = ''dev.trigger.source.register'',
      registerEndpoint = (\<lambda>r. Inr ()),
      toJSON = (\<lambda>j. JObj [(''id'', JStr (j_id j)), (''version'', JStr (j_version j))]),
      updateSource = (\<lambda>i k v. Inr v),
      registeredTriggerForParams = (\<lambda>t p. p)\<rparr>"

definition example_options :: trigger_client_options where
  "example_options =
     \<lparr>opt_apiKey = Some ''secret'', opt_apiUrl = None,
      opt_endpoint = Some ''https://example.com/api/trigger'', opt_path = None,
      opt_logLevel = None\<rparr>"

definition example_client :: trigger_client where
  "example_client =
     \<lparr>cl_options = example_options, registeredJobs = [(''job-1'', example_job)],
      registeredSources = [], registeredHttpSourceHandlers = [],
      registeredDynamicTriggers = [], jobMetadataByDynamicTriggers = [],
      registeredSchedules = [], client_name = ''example'',
      endpoint = ''https://example.com/api/trigger''\<rparr>"


text \<open>A request with the given api key, method, action and body.\<close>

definition example_request :: "string \<Rightarrow> string \<Rightarrow> string \<Rightarrow> json \<Rightarrow> normalized_request" where
  "example_request key m action b =
     \<lparr>req_method = m,
      req_headers = [''x-trigger-api-key'' \<mapsto> key, ''x-trigger-action'' \<mapsto> action],
      req_body = b\<rparr>"


definition example_body :: "string \<Rightarrow> json" where
  "example_body mode =
     JObj [(''job'', JStr ''job-1''), (''run'', JStr ''run-1''),
           (''payload'', JObj [(''mode'', JStr mode)])]"

definition example_source :: "string \<Rightarrow> bool \<Rightarrow> external_source" where
  "example_source channel localAuth =
     \<lparr>src_channel = channel, src_version = ''0.1.0'',
      src_integration = \<lparr>integration_id = ''github'', usesLocalAuth = localAuth\<rparr>,
      src_register = (\<lambda>params event i ctx. Inr None),
      src_handle = (\<lambda>source request. Inr None)\<rparr>"

definition example_attach :: "string \<Rightarrow> bool \<Rightarrow> string \<Rightarrow> json \<Rightarrow> attach_source_options" where
  "example_attach channel localAuth event_name params =
     \<lparr>as_key = ''github.repo'', as_source = example_source channel localAuth,
      as_event = example_event\<lparr>es_name := event_name\<rparr>, as_params = params\<rparr>"


lemmas example_defs =
  example_suspension_def example_error_with_stack_def example_error_with_message_def
  example_unknown_error_def example_parse_error_def example_event_def example_run_def
  example_job_def example_event_body_def example_run_body_def example_preprocess_body_def
  example_body_fields_def example_headers_schema_def example_externals_def
  example_options_def example_client_def example_request_def example_body_def

lemmas example_attach_defs = example_source_def example_attach_def example_event_def
  example_parse_error_def

section \<open>Authorization comes first\<close>

lemma lookup_Own: "map_of r k = Some v \<Longrightarrow> lookup r k = Own v"
  by (simp add: lookup_def)

lemma unauthorizedI:
  assumes "k = None \<or> k \<noteq> orElse (opt_apiKey (cl_options c)) (env ''TRIGGER_API_KEY'')
           \<or> (opt_apiKey (cl_options c) = None \<and> env ''TRIGGER_API_KEY'' = None)"
  shows "\<not> authorized env c k"
  using assms by (auto simp: authorized_def Let_def truthy_def orElse_def split: option.splits)

lemma example_authorized:
  "authorized Map.empty example_client
     (req_headers (example_request ''secret'' m a b) ''x-trigger-api-key'')"
  by (simp add: authorized_def example_request_def example_client_def example_options_def
        orElse_def truthy_def)

text \<open>
  C1. When the \<open>x-trigger-api-key\<close> header is missing, or differs from the configured key
  (the \<open>apiKey\<close> option, else the variable \<open>TRIGGER_API_KEY\<close>), or no key is configured,
  \<open>handleRequest\<close> answers 401 with the message "Unauthorized". The answer is the same
  for every method, action header and body, for every content of the registries and for
  every behaviour of the collaborators: nothing else is processed before the check.
\<close>

theorem handleRequest_unauthorized_401:
  assumes "req_headers request ''x-trigger-api-key'' = None
           \<or> req_headers request ''x-trigger-api-key''
               \<noteq> orElse (opt_apiKey (cl_options c)) (env ''TRIGGER_API_KEY'')
           \<or> (opt_apiKey (cl_options c) = None \<and> env ''TRIGGER_API_KEY'' = None)"
  shows "handleRequest ext env c request =
           Inr \<lparr>status = 401, body = Message ''Unauthorized''\<rparr>"
proof -
  have "\<not> authorized env c (req_headers request ''x-trigger-api-key'')"
    using assms by (rule unauthorizedI)
  then show ?thesis by (simp add: handleRequest_def)
qed

text \<open>A request to execute a registered job, with a wrong key.\<close>

theorem handleRequest_unauthorized_401_witness:
  "handleRequest example_externals Map.empty example_client
     (example_request ''wrong'' ''POST'' ''EXECUTE_JOB'' (example_body ''ok'')) =
   Inr \<lparr>status = 401, body = Message ''Unauthorized''\<rparr>"
proof -
  have "req_headers (example_request ''wrong'' ''POST'' ''EXECUTE_JOB'' (example_body ''ok''))
          ''x-trigger-api-key''
        \<noteq> orElse (opt_apiKey (cl_options example_client)) (Map.empty ''TRIGGER_API_KEY'')"
    by (simp add: example_defs orElse_def)
  then show ?thesis
    by (rule handleRequest_unauthorized_401 [OF disjI2, OF disjI1])
qed

section \<open>Executing a job\<close>

lemma runJob_example:
  "runJob (example_run_body j r (JObj [(''mode'', JStr m)])) example_job =
     example_run (JObj [(''mode'', JStr m)])
       (createIOWithIntegrations
          \<lparr>io_id = r, cachedTasks = [],
           io_context = createRunContext (example_run_body j r (JObj [(''mode'', JStr m)]))\<rparr>
          (JObj []) [])
       (createRunContext (example_run_body j r (JObj [(''mode'', JStr m)])))"
  by (simp add: runJob_def example_run_body_def example_event_body_def example_job_def
        example_event_def nullish_or_def Let_def)

text \<open>
  C2. A POST \<open>EXECUTE_JOB\<close> request with the right key, a body the schema accepts and a
  registered job, whose run function, called with the parsed payload, raises the
  suspension signal carrying task \<open>T\<close>, is answered with status 200 and the body
  \<open>{completed: false, executionId, task: T}\<close> (no output).
\<close>

theorem execute_job_suspension_200:
  assumes auth: "authorized env c (req_headers request ''x-trigger-api-key'')"
    and post: "req_method request = ''POST''"
    and action: "req_headers request ''x-trigger-action'' = Some ''EXECUTE_JOB''"
    and valid: "RunJobBodySchema ext (req_body request) = Some execution"
    and registered: "map_of (registeredJobs c) (ref_id (rjb_job execution)) = Some job"
    and parsed: "parsePayload (trigger_event (j_trigger job))
                   (nullish_or (ev_payload (rjb_event execution)) (JObj [])) = Inr payload"
    and raised: "j_run job payload
                   (createIOWithIntegrations
                      \<lparr>io_id = run_id (rjb_run execution), cachedTasks = rjb_tasks execution,
                       io_context = createRunContext execution\<rparr>
                      (rjb_connections execution) (j_integrations job))
                   (createRunContext execution) = Inl e"
    and suspension: "resumeTask e = Some T"
  shows "handleRequest ext env c request =
           Inr \<lparr>status = 200,
                body = ExecuteBody False None (run_id (rjb_run execution)) (Some T)\<rparr>"
proof -
  have "runJob execution job = Inl e"
    using parsed raised by (simp add: runJob_def Let_def)
  then have "executeJob ext execution job =
          \<lparr>res_completed = False, res_output = None, res_task = Some T, res_error = None\<rparr>"
    using suspension by (simp add: executeJob_def)
  then show ?thesis
    using auth post action valid lookup_Own [OF registered]
    by (simp add: handleRequest_def)
qed

text \<open>
  The example job suspends on the payload \<open>{mode: "suspend"}\<close>; the value it raises also
  has a message and a stack, and the answer is still 200.
\<close>

theorem execute_job_suspension_200_witness:
  "handleRequest example_externals Map.empty example_client
     (example_request ''secret'' ''POST'' ''EXECUTE_JOB'' (example_body ''suspend'')) =
   Inr \<lparr>status = 200, body = ExecuteBody False None ''run-1'' (Some (JStr ''task-1''))\<rparr>"
proof -
  let ?req = "example_request ''secret'' ''POST'' ''EXECUTE_JOB'' (example_body ''suspend'')"
  let ?p = "JObj [(''mode'', JStr ''suspend'')]"
  let ?b = "example_run_body ''job-1'' ''run-1'' ?p"
  have post: "req_method ?req = ''POST''"
    by (simp add: example_request_def)
  have action: "req_headers ?req ''x-trigger-action'' = Some ''EXECUTE_JOB''"
    by (simp add: example_request_def)
  have valid: "RunJobBodySchema example_externals (req_body ?req) = Some ?b"
    by (simp add: example_externals_def example_request_def example_body_def
          example_body_fields_def)
  have registered:
    "map_of (registeredJobs example_client) (ref_id (rjb_job ?b)) = Some example_job"
    by (simp add: example_client_def example_run_body_def)
  have parsed: "parsePayload (trigger_event (j_trigger example_job))
                  (nullish_or (ev_payload (rjb_event ?b)) (JObj [])) = Inr ?p"
    by (simp add: example_defs nullish_or_def)
  have raised: "j_run example_job ?p i ctx = Inl example_suspension" for i ctx
    by (simp add: example_job_def example_run_def)
  have susp: "resumeTask example_suspension = Some (JStr ''task-1'')"
    by (simp add: example_suspension_def)
  from execute_job_suspension_200 [OF example_authorized post action valid registered
      parsed raised susp]
  show ?thesis by (simp add: example_run_body_def)
qed

section \<open>The endpoint URL\<close>

text \<open>
  C6, as the code has it. When no \<open>endpoint\<close> option is given and none of
  \<open>TRIGGER_ENDPOINT\<close>, \<open>TRIGGER_HOST\<close>, \<open>HOST\<close>, \<open>HOSTNAME\<close>, \<open>NOW_URL\<close>, \<open>VERCEL_URL\<close>
  is set, the constructor of the client raises the configuration error: the error comes
  at construction, and no client exists to listen with.
\<close>

theorem TriggerClient_no_endpoint:
  assumes "opt_endpoint opts = None"
    and "env ''TRIGGER_ENDPOINT'' = None" and "env ''TRIGGER_HOST'' = None"
    and "env ''HOST'' = None" and "env ''HOSTNAME'' = None" and "env ''NOW_URL'' = None"
    and "env ''VERCEL_URL'' = None"
  shows "TriggerClient env name opts =
     Inl (Error (''Could not determine the endpoint for the trigger client. '' @
                  ''Please set the TRIGGER_ENDPOINT environment variable.''))"
  using assms by (simp add: TriggerClient_def buildEndpointUrl_def truthy_def orElse_def)

text \<open>An environment with an unrelated variable, and options with a path but no endpoint.\<close>

theorem TriggerClient_no_endpoint_witness:
  "TriggerClient [''PATH'' \<mapsto> ''/usr/bin''] ''example''
     \<lparr>opt_apiKey = Some ''secret'', opt_apiUrl = None, opt_endpoint = None,
      opt_path = Some ''/api/trigger'', opt_logLevel = None\<rparr> =
   Inl (Error (''Could not determine the endpoint for the trigger client. '' @
                ''Please set the TRIGGER_ENDPOINT environment variable.''))"
  by (rule TriggerClient_no_endpoint) simp_all

text \<open>
  With an empty environment and no options, construction does not give a client: the
  error is raised there, not later by \<open>listen\<close>.
\<close>

theorem endpoint_error_at_construction:
  "TriggerClient Map.empty ''example''
     \<lparr>opt_apiKey = None, opt_apiUrl = None, opt_endpoint = None, opt_path = None,
      opt_logLevel = None\<rparr> =
   Inl (Error (''Could not determine the endpoint for the trigger client. '' @
                ''Please set the TRIGGER_ENDPOINT environment variable.''))"
  by (simp add: TriggerClient_def buildEndpointUrl_def truthy_def orElse_def)

section \<open>Jobs of a dynamic trigger\<close>




section \<open>The outcome of a run\<close>

text \<open>
  C3. \<open>#executeJob\<close> classifies the outcome of a run in a fixed order. A normal return
  gives \<open>{completed: true, output}\<close>. A raised suspension signal gives
  \<open>{completed: false, task}\<close>, whatever shape the raised value has. Otherwise a value that
  the error-with-stack schema accepts gives the error the schema returns, whatever the
  error-with-message schema says; otherwise a value that the error-with-message schema
  accepts gives the error that schema returns; any other value gives the error
  \<open>{message: "Unknown error"}\<close>. All this holds for every pair of schemas. With the
  schemas as the spec describes them, an error with stack carries a stack and an error
  with message carries none.
\<close>

theorem executeJob_classification:
  "(\<forall>out. runJob b job = Inr out \<longrightarrow>
      executeJob ext b job =
        \<lparr>res_completed = True, res_output = Some out, res_task = None, res_error = None\<rparr>)
   \<and> (\<forall>e t. runJob b job = Inl e \<and> resumeTask e = Some t \<longrightarrow>
      executeJob ext b job =
        \<lparr>res_completed = False, res_output = None, res_task = Some t, res_error = None\<rparr>)
   \<and> (\<forall>e d. runJob b job = Inl e \<and> resumeTask e = None
            \<and> ErrorWithStackSchema ext e = Some d \<longrightarrow>
      executeJob ext b job =
        \<lparr>res_completed = True, res_output = None, res_task = None, res_error = Some d\<rparr>)
   \<and> (\<forall>e d. runJob b job = Inl e \<and> resumeTask e = None
            \<and> ErrorWithStackSchema ext e = None \<and> ErrorWithMessage ext e = Some d \<longrightarrow>
      executeJob ext b job =
        \<lparr>res_completed = True, res_output = None, res_task = None, res_error = Some d\<rparr>)
   \<and> (\<forall>e. runJob b job = Inl e \<and> resumeTask e = None
            \<and> ErrorWithStackSchema ext e = None \<and> ErrorWithMessage ext e = None \<longrightarrow>
      executeJob ext b job =
        \<lparr>res_completed = True, res_output = None, res_task = None,
         res_error = Some \<lparr>err_message = ''Unknown error'', err_stack = None\<rparr>\<rparr>)
   \<and> (\<forall>e d. ErrorWithStackSchema_safeParse e = Some d \<longrightarrow> err_stack d \<noteq> None)
   \<and> (\<forall>e d. ErrorWithMessage_safeParse e = Some d \<longrightarrow> err_stack d = None)"
proof -
  have stack: "err_stack d \<noteq> None" if "ErrorWithStackSchema_safeParse e = Some d" for e d
    using that
    by (auto simp: ErrorWithStackSchema_safeParse_def split: json.splits option.splits)
  have msg: "err_stack d = None" if "ErrorWithMessage_safeParse e = Some d" for e d
    using that
    by (auto simp: ErrorWithMessage_safeParse_def split: json.splits option.splits)
  show ?thesis
    using stack msg by (simp add: executeJob_def)
qed

text \<open>
  The five outcomes on the example job. The suspension of the second run has a message
  and a stack, and is a suspension all the same; the error of the third run has a
  message too, and keeps its stack.
\<close>

theorem executeJob_classification_witness:
  "executeJob example_externals
     (example_run_body ''job-1'' ''run-1'' (JObj [(''mode'', JStr ''ok'')])) example_job =
     \<lparr>res_completed = True, res_output = Some (JStr ''done''), res_task = None,
      res_error = None\<rparr>
   \<and> executeJob example_externals
     (example_run_body ''job-1'' ''run-1'' (JObj [(''mode'', JStr ''suspend'')])) example_job =
     \<lparr>res_completed = False, res_output = None, res_task = Some (JStr ''task-1''),
      res_error = None\<rparr>
   \<and> executeJob example_externals
     (example_run_body ''job-1'' ''run-1'' (JObj [(''mode'', JStr ''stack'')])) example_job =
     \<lparr>res_completed = True, res_output = None, res_task = None,
      res_error = Some \<lparr>err_message = ''boom'', err_stack = Some ''at run''\<rparr>\<rparr>
   \<and> executeJob example_externals
     (example_run_body ''job-1'' ''run-1'' (JObj [(''mode'', JStr ''message'')])) example_job =
     \<lparr>res_completed = True, res_output = None, res_task = None,
      res_error = Some \<lparr>err_message = ''boom'', err_stack = None\<rparr>\<rparr>
   \<and> executeJob example_externals
     (example_run_body ''job-1'' ''run-1'' (JObj [(''mode'', JStr ''unknown'')])) example_job =
     \<lparr>res_completed = True, res_output = None, res_task = None,
      res_error = Some \<lparr>err_message = ''Unknown error'', err_stack = None\<rparr>\<rparr>
   \<and> err_stack \<lparr>err_message = ''boom'', err_stack = Some ''at run''\<rparr> \<noteq> None"
proof -
  let ?b = "\<lambda>m. example_run_body ''job-1'' ''run-1'' (JObj [(''mode'', JStr m)])"
  note c = executeJob_classification [of _ example_job example_externals]
  have r1: "runJob (?b ''ok'') example_job = Inr (JStr ''done'')"
    by (simp add: runJob_example example_run_def)
  have r2: "runJob (?b ''suspend'') example_job = Inl example_suspension"
    by (simp add: runJob_example example_run_def)
  have r3: "runJob (?b ''stack'') example_job = Inl example_error_with_stack"
    by (simp add: runJob_example example_run_def)
  have r4: "runJob (?b ''message'') example_job = Inl example_error_with_message"
    by (simp add: runJob_example example_run_def)
  have r5: "runJob (?b ''unknown'') example_job = Inl example_unknown_error"
    by (simp add: runJob_example example_run_def)
  have s2: "resumeTask example_suspension = Some (JStr ''task-1'')"
    by (simp add: example_suspension_def)
  have s3: "resumeTask example_error_with_stack = None
            \<and> ErrorWithStackSchema example_externals example_error_with_stack =
                Some \<lparr>err_message = ''boom'', err_stack = Some ''at run''\<rparr>"
    by (simp add: example_error_with_stack_def example_externals_def
          ErrorWithStackSchema_safeParse_def)
  have s4: "resumeTask example_error_with_message = None
            \<and> ErrorWithStackSchema example_externals example_error_with_message = None
            \<and> ErrorWithMessage example_externals example_error_with_message =
                Some \<lparr>err_message = ''boom'', err_stack = None\<rparr>"
    by (simp add: example_error_with_message_def example_externals_def
          ErrorWithStackSchema_safeParse_def ErrorWithMessage_safeParse_def)
  have s5: "resumeTask example_unknown_error = None
            \<and> ErrorWithStackSchema example_externals example_unknown_error = None
            \<and> ErrorWithMessage example_externals example_unknown_error = None"
    by (simp add: example_unknown_error_def example_externals_def
          ErrorWithStackSchema_safeParse_def ErrorWithMessage_safeParse_def)
  have c1: "executeJob example_externals (?b ''ok'') example_job =
     \<lparr>res_completed = True, res_output = Some (JStr ''done''), res_task = None,
      res_error = None\<rparr>"
    using c [of "?b ''ok''"] r1 by blast
  have c2: "executeJob example_externals (?b ''suspend'') example_job =
     \<lparr>res_completed = False, res_output = None, res_task = Some (JStr ''task-1''),
      res_error = None\<rparr>"
    using c [of "?b ''suspend''"] r2 s2 by blast
  have c3: "executeJob example_externals (?b ''stack'') example_job =
     \<lparr>res_completed = True, res_output = None, res_task = None,
      res_error = Some \<lparr>err_message = ''boom'', err_stack = Some ''at run''\<rparr>\<rparr>"
    using c [of "?b ''stack''"] r3 s3 by blast
  have c4: "executeJob example_externals (?b ''message'') example_job =
     \<lparr>res_completed = True, res_output = None, res_task = None,
      res_error = Some \<lparr>err_message = ''boom'', err_stack = None\<rparr>\<rparr>"
    using c [of "?b ''message''"] r4 s4 by blast
  have c5: "executeJob example_externals (?b ''unknown'') example_job =
     \<lparr>res_completed = True, res_output = None, res_task = None,
      res_error = Some \<lparr>err_message = ''Unknown error'', err_stack = None\<rparr>\<rparr>"
    using c [of "?b ''unknown''"] r5 s5 by blast
  have c6: "err_stack \<lparr>err_message = ''boom'', err_stack = Some ''at run''\<rparr> \<noteq> None"
    using c [of "?b ''stack''"] s3 by (simp add: example_externals_def)
  from c1 c2 c3 c4 c5 c6 show ?thesis by blast
qed

text \<open>
  What \<open>parsePayload\<close> raises while a run is preprocessed leaves \<open>handleRequest\<close>. So
  does the \<open>TypeError\<close> raised when the job id of an \<open>EXECUTE_JOB\<close> request has no entry
  and names a member of \<open>Object.prototype\<close>.
\<close>

lemma preprocess_failure_leaves_handleRequest:
  assumes "authorized env c (req_headers request ''x-trigger-api-key'')"
    and "req_method request = ''POST''"
    and "req_headers request ''x-trigger-action'' = Some ''PREPROCESS_RUN''"
    and "PreprocessRunBodySchema ext (req_body request) = Some b"
    and "map_of (registeredJobs c) (ref_id (ppb_job b)) = Some job"
    and "parsePayload (trigger_event (j_trigger job))
           (nullish_or (ev_payload (ppb_event b)) (JObj [])) = Inl e"
  shows "handleRequest ext env c request = Inl e"
  using assms by (simp add: handleRequest_def preprocessRun_def Let_def lookup_Own)

lemma inherited_job_leaves_handleRequest:
  assumes "authorized env c (req_headers request ''x-trigger-api-key'')"
    and "req_method request = ''POST''"
    and "req_headers request ''x-trigger-action'' = Some ''EXECUTE_JOB''"
    and "RunJobBodySchema ext (req_body request) = Some execution"
    and "lookup (registeredJobs c) (ref_id (rjb_job execution)) = Inherited"
  shows "handleRequest ext env c request = Inl TypeError_raised"
  using assms by (simp add: handleRequest_def)

text \<open>
  C9, evaluated on the code. A \<open>PREPROCESS_RUN\<close> request with the right key, a valid
  body and a registered job, whose payload the job's event does not parse: the value
  raised by \<open>parsePayload\<close> leaves \<open>handleRequest\<close> uncaught. The same body sent as
  \<open>EXECUTE_JOB\<close> is answered with 500 and a structured error.
\<close>

theorem preprocess_parse_failure_propagates:
  "handleRequest example_externals Map.empty example_client
     (example_request ''secret'' ''POST'' ''PREPROCESS_RUN''
        (JObj [(''job'', JStr ''job-1''), (''run'', JStr ''run-1''),
               (''payload'', JStr ''not an object'')])) =
     Inl example_parse_error
   \<and> handleRequest example_externals Map.empty example_client
     (example_request ''secret'' ''POST'' ''EXECUTE_JOB''
        (JObj [(''job'', JStr ''job-1''), (''run'', JStr ''run-1''),
               (''payload'', JStr ''not an object'')])) =
     Inr \<lparr>status = 500,
          body = ErrorBody \<lparr>err_message = ''Invalid payload'', err_stack = None\<rparr>\<rparr>"
  by (simp add: handleRequest_def authorized_def orElse_def truthy_def example_defs
        preprocessRun_def executeJob_def runJob_def nullish_or_def Let_def lookup_def
        createIOWithIntegrations_def ErrorWithStackSchema_safeParse_def
        ErrorWithMessage_safeParse_def)

section \<open>The context of a run\<close>



section \<open>Validation of POST requests\<close>




section \<open>Registering a source\<close>








text \<open>Attaching a job with an event trigger registers the job and does nothing else.\<close>

lemma attach_EventTrigger:
  "j_trigger job = EventTrigger e f \<Longrightarrow> j_enabled job \<Longrightarrow>
     attach c job = Inr (c\<lparr>registeredJobs := AList.update (j_id job) job (registeredJobs c)\<rparr>)"
  by (simp add: attach_def)

text \<open>
  A call of \<open>attachSource\<close> whose key does not read an inherited member returns, with
  the entry of the key merged and the handler of the key assigned.
\<close>

lemma attachSource_returns:
  assumes "lookup (registeredSources c) (as_key opts) \<noteq> Inherited"
  shows "\<exists>c'. attachSource ext c opts = Inr c'
     \<and> map_of (registeredSources c') =
         (map_of (registeredSources c))
           (as_key opts \<mapsto>
              (case map_of (registeredSources c) (as_key opts) of
                 Some s \<Rightarrow> s | None \<Rightarrow> fresh_source opts)
                \<lparr>sm_events :=
                   Array_from_Set
                     (sm_events (case map_of (registeredSources c) (as_key opts) of
                                   Some s \<Rightarrow> s | None \<Rightarrow> fresh_source opts)
                      @ [es_name (as_event opts)])\<rparr>)
     \<and> map_of (registeredHttpSourceHandlers c') =
         (map_of (registeredHttpSourceHandlers c))
           (as_key opts \<mapsto> src_handle (as_source opts))"
proof (cases "map_of (registeredSources c) (as_key opts)")
  case None
  with assms have "lookup (registeredSources c) (as_key opts) = Undefined"
    by (simp add: lookup_def split: if_splits)
  with None show ?thesis
    unfolding attachSource_def fresh_source_def Let_def new_Job_def
    by (simp add: attach_EventTrigger AList.update_conv')
next
  case (Some s)
  then have "lookup (registeredSources c) (as_key opts) = Own s"
    by (rule lookup_Own)
  with Some show ?thesis
    unfolding attachSource_def Let_def new_Job_def
    by (simp add: attach_EventTrigger AList.update_conv')
qed






text \<open>
  C10. When the key of an \<open>attachSource\<close> call already has an entry, the call returns
  and the new entry is the old one with the event name merged into its \<open>events\<close>:
  channel, key, params and clientId stay as the first registration set them, whatever the
  source and the params of the new call are. The handler of the key becomes the handler
  of the new source.
\<close>

theorem attachSource_again_keeps_metadata:
  assumes "map_of (registeredSources c) (as_key opts) = Some s"
  shows "\<exists>c'. attachSource ext c opts = Inr c'
       \<and> map_of (registeredSources c') (as_key opts) =
           Some (s\<lparr>sm_events := Array_from_Set (sm_events s @ [es_name (as_event opts)])\<rparr>)
       \<and> map_of (registeredHttpSourceHandlers c') (as_key opts) =
           Some (src_handle (as_source opts))"
proof -
  have "lookup (registeredSources c) (as_key opts) \<noteq> Inherited"
    using assms by (simp add: lookup_def)
  from attachSource_returns [OF this, of ext] assms show ?thesis
    by auto
qed

text \<open>
  A second call with another channel, other params and local authentication: the entry
  keeps the channel, params and clientId of the first call.
\<close>

theorem attachSource_again_keeps_metadata_witness:
  "\<exists>c1 c2.
     attachSource example_externals example_client
       (example_attach ''HTTP'' False ''issue'' (JStr ''first'')) = Inr c1
   \<and> attachSource example_externals c1
       (example_attach ''SMTP'' True ''push'' (JStr ''second'')) = Inr c2
   \<and> map_of (registeredSources c2) ''github.repo'' =
       Some \<lparr>sm_channel = ''HTTP'', sm_key = ''github.repo'', sm_params = JStr ''first'',
             sm_events = [''issue'', ''push''], sm_clientId = Some ''github''\<rparr>"
proof -
  let ?a1 = "example_attach ''HTTP'' False ''issue'' (JStr ''first'')"
  let ?a2 = "example_attach ''SMTP'' True ''push'' (JStr ''second'')"
  let ?s = "\<lparr>sm_channel = ''HTTP'', sm_key = ''github.repo'', sm_params = JStr ''first'',
             sm_events = [''issue''], sm_clientId = Some ''github''\<rparr>"
  have "lookup (registeredSources example_client) (as_key ?a1) \<noteq> Inherited"
    by (simp add: lookup_def example_client_def example_attach_def
          Object_prototype_members_def)
  from attachSource_returns [OF this, of example_externals]
  obtain c1 where c1: "attachSource example_externals example_client ?a1 = Inr c1"
    and first: "map_of (registeredSources c1) (as_key ?a2) = Some ?s"
    by (auto simp: fresh_source_def example_attach_defs example_client_def
          Array_from_Set_def Set_add_def)
  from attachSource_again_keeps_metadata [OF first, of example_externals]
  obtain c2 where c2: "attachSource example_externals c1 ?a2 = Inr c2"
    and entry: "map_of (registeredSources c2) (as_key ?a2) =
           Some (?s\<lparr>sm_events := Array_from_Set (sm_events ?s @ [es_name (as_event ?a2)])\<rparr>)"
    by blast
  from entry have "map_of (registeredSources c2) ''github.repo'' =
       Some \<lparr>sm_channel = ''HTTP'', sm_key = ''github.repo'', sm_params = JStr ''first'',
             sm_events = [''issue'', ''push''], sm_clientId = Some ''github''\<rparr>"
    by (simp add: example_attach_defs Array_from_Set_def Set_add_def)
  with c1 c2 show ?thesis by blast
qed

section \<open>The registries stay plain objects\<close>

text \<open>
  The registry of sources and the job lists of the dynamic triggers are plain objects
  after construction, and \<open>attachJobToDynamicTrigger\<close> and \<open>attachSource\<close> leave
  them so: under the key \<open>__proto__\<close> both raise before they assign.
\<close>

lemma plain_object_update:
  "plain_object r \<Longrightarrow> k \<noteq> ''__proto__'' \<Longrightarrow> plain_object (AList.update k v r)"
  by (auto simp: plain_object_def AList.dom_update)

lemma plain_object_lookup_proto: "plain_object r \<Longrightarrow> lookup r ''__proto__'' = Inherited"
proof -
  assume "plain_object r"
  then have "map_of r ''__proto__'' = None"
    by (simp add: plain_object_def map_of_eq_None_iff)
  then show ?thesis
    by (simp add: lookup_def Object_prototype_members_def)
qed

lemma plain_after_construction:
  "TriggerClient env name opts = Inr c \<Longrightarrow>
     plain_object (registeredSources c) \<and> plain_object (jobMetadataByDynamicTriggers c)"
  by (auto simp: TriggerClient_def plain_object_def split: sum.splits option.splits)

lemma plain_after_attachJobToDynamicTrigger:
  assumes "attachJobToDynamicTrigger c j t = Inr c'"
    and "plain_object (registeredSources c)"
    and "plain_object (jobMetadataByDynamicTriggers c)"
  shows "plain_object (registeredSources c') \<and> plain_object (jobMetadataByDynamicTriggers c')"
proof -
  from assms(1) have "lookup (jobMetadataByDynamicTriggers c) (dt_id t) \<noteq> Inherited"
    by (auto simp: attachJobToDynamicTrigger_def split: property.splits)
  with plain_object_lookup_proto [OF assms(3)] have "dt_id t \<noteq> ''__proto__''" by auto
  with assms show ?thesis
    by (auto simp: attachJobToDynamicTrigger_def Let_def plain_object_update
          split: property.splits)
qed

lemma plain_after_attachSource:
  assumes "attachSource ext c opts = Inr c'"
    and "plain_object (registeredSources c)"
    and "plain_object (jobMetadataByDynamicTriggers c)"
  shows "plain_object (registeredSources c') \<and> plain_object (jobMetadataByDynamicTriggers c')"
proof -
  from assms(1) have ni: "lookup (registeredSources c) (as_key opts) \<noteq> Inherited"
    by (auto simp: attachSource_def Let_def split: property.splits)
  with plain_object_lookup_proto [OF assms(2)] have "as_key opts \<noteq> ''__proto__''" by auto
  with assms ni show ?thesis
    unfolding attachSource_def Let_def new_Job_def
    by (auto simp: attach_EventTrigger plain_object_update split: property.splits)
qed

end
